theory Spec2Isabelle
  imports Complex_Main
begin

section \<open>JavaScript values used by the components\<close>

text \<open>
  A JavaScript number is a finite value, \<open>NaN\<close> or one of the two infinities. Finite
  values are modelled by rationals: every finite double is a rational, and the operations
  the components apply to a value they store (\<open>Math.min\<close>, \<open>Math.max\<close>, comparison) are
  exact on doubles. The sign of zero is not distinguished (\<open>-0 === 0\<close> in JavaScript).
\<close>

datatype jsnum = Num rat | NaN | PosInf | NegInf

text \<open>\<open>a < b\<close> of JavaScript: false as soon as one side is \<open>NaN\<close>.\<close>

fun js_less :: "jsnum \<Rightarrow> jsnum \<Rightarrow> bool" where
  "js_less NaN _ = False"
| "js_less _ NaN = False"
| "js_less (Num a) (Num b) = (a < b)"
| "js_less (Num _) PosInf = True"
| "js_less (Num _) NegInf = False"
| "js_less PosInf _ = False"
| "js_less NegInf NegInf = False"
| "js_less NegInf _ = True"

text \<open>\<open>Math.min\<close> and \<open>Math.max\<close> of two arguments: \<open>NaN\<close> as soon as one argument is.\<close>

fun Math_min :: "jsnum \<Rightarrow> jsnum \<Rightarrow> jsnum" where
  "Math_min NaN _ = NaN"
| "Math_min _ NaN = NaN"
| "Math_min a b = (if js_less b a then b else a)"

fun Math_max :: "jsnum \<Rightarrow> jsnum \<Rightarrow> jsnum" where
  "Math_max NaN _ = NaN"
| "Math_max _ NaN = NaN"
| "Math_max a b = (if js_less a b then b else a)"

text \<open>\<open>Math.round\<close>: the nearest integer, a tie going up.\<close>

fun Math_round :: "jsnum \<Rightarrow> jsnum" where
  "Math_round (Num a) = Num (of_int \<lfloor>a + 1 / 2\<rfloor>)"
| "Math_round v = v"

text \<open>
  Arithmetic on doubles gives the double nearest to the exact result, a tie going to the
  even significand (IEEE 754 binary64, round to nearest). \<open>to_double q\<close> is that double
  for the exact result \<open>q\<close>: 53 significant bits, the exponent of the unit in the last
  place bounded below by the subnormal range, and an infinity when the rounded value
  reaches \<open>2 ^ 1024\<close>, which it does when its exponent is 1024 or more, or is 1023 with
  the significand rounded up to \<open>2 ^ 53\<close>.
\<close>

definition pow2 :: "int \<Rightarrow> rat" where
  "pow2 k = (if 0 \<le> k then 2 ^ nat k else 1 / 2 ^ nat (- k))"

function bit_length :: "int \<Rightarrow> int" where
  "bit_length n = (if n \<le> 0 then 0 else 1 + bit_length (n div 2))"
  by pat_completeness auto
termination
  by (relation "measure nat") auto

text \<open>The exponent \<open>e\<close> with \<open>2 ^ e \<le> q < 2 ^ (e + 1)\<close>, for a positive \<open>q\<close>.\<close>

definition floor_log2 :: "rat \<Rightarrow> int" where
  "floor_log2 q =
     (case quotient_of q of
        (a, b) \<Rightarrow>
          (let k = bit_length a - bit_length b
           in if pow2 k \<le> q then k else k - 1))"

definition round_half_even :: "rat \<Rightarrow> int" where
  "round_half_even x =
     (let f = \<lfloor>x\<rfloor>; d = x - of_int f
      in if d < 1 / 2 then f else if 1 / 2 < d then f + 1 else if even f then f else f + 1)"

definition to_double :: "rat \<Rightarrow> jsnum" where
  "to_double q =
     (if q = 0 then Num 0
      else (let e = max (floor_log2 \<bar>q\<bar>) (- 1022);
                ulp = pow2 (e - 52);
                r = of_int (round_half_even (q / ulp)) * ulp
            in if 1024 \<le> e \<or> e = 1023 \<and> \<bar>round_half_even (q / ulp)\<bar> = 2 ^ 53
               then (if 0 < q then PosInf else NegInf) else Num r))"

text \<open>
  The three operations of \<open>((e.clientX - rect.left) / rect.width) * 100\<close>: the difference
  of two finite numbers, a quotient by a finite number (a zero divisor is \<open>+0\<close>), and a
  product with a finite number.
\<close>

definition js_minus :: "rat \<Rightarrow> rat \<Rightarrow> jsnum" where
  "js_minus a b = to_double (a - b)"

fun js_over :: "jsnum \<Rightarrow> rat \<Rightarrow> jsnum" where
  "js_over (Num x) w =
     (if w = 0 then (if x = 0 then NaN else if 0 < x then PosInf else NegInf)
      else to_double (x / w))"
| "js_over NaN w = NaN"
| "js_over PosInf w = (if w < 0 then NegInf else PosInf)"
| "js_over NegInf w = (if w < 0 then PosInf else NegInf)"

fun js_times :: "jsnum \<Rightarrow> rat \<Rightarrow> jsnum" where
  "js_times (Num x) c = to_double (x * c)"
| "js_times NaN c = NaN"
| "js_times PosInf c = (if c = 0 then NaN else if 0 < c then PosInf else NegInf)"
| "js_times NegInf c = (if c = 0 then NaN else if 0 < c then NegInf else PosInf)"

text \<open>
  Text shown to the user is kept as its list of UTF-16 code units, which is what a
  JavaScript string is; property names, key codes and CSS classes are ASCII and are kept
  as \<open>string\<close>.
\<close>

type_synonym jstext = "nat list"

section \<open>MusicPlayer.jsx\<close>

text \<open>
  The props the state depends on. \<open>progress = None\<close> is an omitted prop, which takes the
  default 60. \<open>onPlayChange\<close> tells whether the caller passed a callback: the component
  calls it through \<open>onPlayChange?.(...)\<close>, so an omitted callback is not called.
\<close>

record props =
  progress :: "jsnum option"
  onPlayChange :: bool

text \<open>The two \<open>useState\<close> cells.\<close>

record player =
  isPlaying :: bool
  currentProgress :: jsnum

text \<open>
  What one run of an event handler does besides updating the state: the arguments it
  passed to \<open>onPlayChange\<close>, in order; whether it called \<open>e.preventDefault()\<close>; whether
  it called \<open>buttonRef.current?.focus()\<close>.
\<close>

record effects =
  notified :: "bool list"
  defaultPrevented :: bool
  focusRequested :: bool

definition no_effects :: effects where
  "no_effects = \<lparr>notified = [], defaultPrevented = False, focusRequested = False\<rparr>"

text \<open>\<open>useState(false)\<close> and \<open>useState(progress)\<close> with the default \<open>progress = 60\<close>.\<close>

definition initial :: "props \<Rightarrow> player" where
  "initial p =
     \<lparr>isPlaying = False,
      currentProgress = (case progress p of None \<Rightarrow> Num 60 | Some v \<Rightarrow> v)\<rparr>"

text \<open>
  A handler is a closure of the render that created it: \<open>isPlaying\<close> in its body is the
  value that render saw, whatever the state cell holds when the handler runs, and
  \<open>setIsPlaying(!isPlaying)\<close> writes the negation of that value into the cell.
  \<open>handlePlayToggle_from p rendered cur\<close> is the handler created by the render of the state
  \<open>rendered\<close>, run while the cells hold \<open>cur\<close>. What the browser does by itself on a key
  whose default is not prevented is outside the component and is not modelled.
\<close>

definition handlePlayToggle_from :: "props \<Rightarrow> player \<Rightarrow> player \<Rightarrow> player \<times> effects" where
  "handlePlayToggle_from p rendered cur =
     (cur\<lparr>isPlaying := \<not> isPlaying rendered\<rparr>,
      \<lparr>notified = (if onPlayChange p then [\<not> isPlaying rendered] else []),
       defaultPrevented = False,
       focusRequested = True\<rparr>)"

text \<open>\<open>handleKeyDown\<close> receives the event; only \<open>e.code\<close> is read.\<close>

definition handleKeyDown_from ::
    "props \<Rightarrow> player \<Rightarrow> player \<Rightarrow> string \<Rightarrow> player \<times> effects" where
  "handleKeyDown_from p rendered cur code =
     (if code = ''Space'' \<or> code = ''Enter''
      then (case handlePlayToggle_from p rendered cur of
              (st', eff) \<Rightarrow> (st', eff\<lparr>defaultPrevented := True\<rparr>))
      else (cur, no_effects))"

text \<open>
  The handlers of the render that shows the current state: what an event runs when the
  card has rendered since the last change of state.
\<close>

definition handlePlayToggle :: "props \<Rightarrow> player \<Rightarrow> player \<times> effects" where
  "handlePlayToggle p st = handlePlayToggle_from p st st"

definition handleKeyDown :: "props \<Rightarrow> player \<Rightarrow> string \<Rightarrow> player \<times> effects" where
  "handleKeyDown p st code = handleKeyDown_from p st st code"

text \<open>
  The click on the progress bar: \<open>clientX\<close> of the event and \<open>left\<close> and \<open>width\<close> of the
  bar's bounding rectangle, three finite doubles.
\<close>

record progress_click =
  clientX :: rat
  rect_left :: rat
  rect_width :: rat

definition newProgress :: "progress_click \<Rightarrow> jsnum" where
  "newProgress e =
     Math_round (js_times (js_over (js_minus (clientX e) (rect_left e)) (rect_width e)) 100)"

text \<open>
  The last statement of \<open>handleProgressClick\<close>,
  \<open>setCurrentProgress(Math.max(0, Math.min(100, newProgress)))\<close>, as a function of
  \<open>newProgress\<close>: the operation the specification calls \<open>setProgress\<close>.
\<close>

definition setProgress :: "player \<Rightarrow> jsnum \<Rightarrow> player \<times> effects" where
  "setProgress st v =
     (st\<lparr>currentProgress := Math_max (Num 0) (Math_min (Num 100) v)\<rparr>, no_effects)"

definition handleProgressClick :: "player \<Rightarrow> progress_click \<Rightarrow> player \<times> effects" where
  "handleProgressClick st e = setProgress st (newProgress e)"

text \<open>
  The attributes and texts of the rendered card that depend on the state: the progress
  bar's range-value triple, the button's pressed indicator and label, the button's
  caption and the live region.
\<close>

record view =
  aria_valuenow :: jsnum
  aria_valuemin :: string
  aria_valuemax :: string
  aria_pressed :: bool
  aria_label :: jstext
  caption :: jstext
  live_region :: jstext

definition label_pause :: jstext where
  "label_pause = [0x6682, 0x505C, 0x64AD, 0x653E]"

definition label_start :: jstext where
  "label_start = [0x5F00, 0x59CB, 0x64AD, 0x653E]"

definition caption_pause :: jstext where
  "caption_pause = [0x6682, 0x505C]"

definition caption_play :: jstext where
  "caption_play = [0x64AD, 0x653E]"

definition live_playing :: jstext where
  "live_playing = [0x6B63, 0x5728, 0x64AD, 0x653E]"

definition live_paused :: jstext where
  "live_paused = [0x5DF2, 0x6682, 0x505C]"

definition render :: "player \<Rightarrow> view" where
  "render st =
     \<lparr>aria_valuenow = currentProgress st,
      aria_valuemin = ''0'',
      aria_valuemax = ''100'',
      aria_pressed = isPlaying st,
      aria_label = (if isPlaying st then label_pause else label_start),
      caption = (if isPlaying st then caption_pause else caption_play),
      live_region = (if isPlaying st then live_playing else live_paused)\<rparr>"

text \<open>
  The events of the card and their handlers: a click on the button, a key pressed on the
  button or on the progress bar (both carry \<open>handleKeyDown\<close>), a click on the bar. The
  handler of a click on the bar reads no state.
\<close>

datatype event = Click | KeyDown string | ProgressClick progress_click

fun dispatch_from :: "props \<Rightarrow> player \<Rightarrow> player \<Rightarrow> event \<Rightarrow> player \<times> effects" where
  "dispatch_from p rendered cur Click = handlePlayToggle_from p rendered cur"
| "dispatch_from p rendered cur (KeyDown code) = handleKeyDown_from p rendered cur code"
| "dispatch_from p rendered cur (ProgressClick e) = handleProgressClick cur e"

text \<open>
  A mounted card: the state its last render showed, from which the handlers on screen
  were created, and the state its cells hold. An event runs the handler on screen and
  changes the cells; a render shows the cells.
\<close>

record mounted =
  shown :: player
  cells :: player

datatype step = Event event | Render

fun run_steps :: "props \<Rightarrow> mounted \<Rightarrow> step list \<Rightarrow> mounted \<times> bool list" where
  "run_steps p i [] = (i, [])"
| "run_steps p i (Render # ss) = run_steps p (i\<lparr>shown := cells i\<rparr>) ss"
| "run_steps p i (Event ev # ss) =
     (case dispatch_from p (shown i) (cells i) ev of
        (c, eff) \<Rightarrow>
          (case run_steps p (i\<lparr>cells := c\<rparr>) ss of (i', ns) \<Rightarrow> (i', notified eff @ ns)))"

text \<open>
  An event on a card that has rendered its current state, and a sequence of events with
  a render after each of them: the final state and every callback argument, in order.
\<close>

definition dispatch :: "props \<Rightarrow> player \<Rightarrow> event \<Rightarrow> player \<times> effects" where
  "dispatch p st ev = dispatch_from p st st ev"

fun run :: "props \<Rightarrow> player \<Rightarrow> event list \<Rightarrow> player \<times> bool list" where
  "run p st [] = (st, [])"
| "run p st (ev # evs) =
     (case dispatch p st ev of
        (st', eff) \<Rightarrow> (case run p st' evs of (st'', ns) \<Rightarrow> (st'', notified eff @ ns)))"

section \<open>Objects used as lookup tables\<close>

text \<open>
  Both shells keep their tables in object literals and read them with \<open>table[key]\<close>,
  where \<open>key\<close> is a prop of the caller. Such a read finds the table's own entries and,
  for the names every object inherits from \<open>Object.prototype\<close>, the inherited member: a
  function (the prototype object itself for \<open>__proto__\<close>), which is truthy and has none
  of the fields the shells go on to read. Every other key gives \<open>undefined\<close>.
\<close>

datatype 'a property = Own 'a | Inherited | Missing

definition Object_prototype :: "string list" where
  "Object_prototype =
     [''constructor'', ''__defineGetter__'', ''__defineSetter__'', ''hasOwnProperty'',
      ''__lookupGetter__'', ''__lookupSetter__'', ''isPrototypeOf'',
      ''propertyIsEnumerable'', ''toString'', ''valueOf'', ''__proto__'',
      ''toLocaleString'']"

definition get_property :: "(string \<times> 'a) list \<Rightarrow> string \<Rightarrow> 'a property" where
  "get_property table k =
     (case map_of table k of
        Some v \<Rightarrow> Own v
      | None \<Rightarrow> if k \<in> set Object_prototype then Inherited else Missing)"

datatype error = TypeError

text \<open>A prop the caller may omit, and its default.\<close>

definition or_default :: "'a option \<Rightarrow> 'a \<Rightarrow> 'a" where
  "or_default x d = (case x of None \<Rightarrow> d | Some v \<Rightarrow> v)"

text \<open>
  \<open>Array.prototype.join(' ')\<close>: an \<open>undefined\<close> element (\<open>None\<close>) is joined as the
  empty string.
\<close>

fun join :: "string option list \<Rightarrow> string" where
  "join [] = []"
| "join [x] = or_default x []"
| "join (x # xs) = or_default x [] @ '' '' @ join xs"

section \<open>GlassCard.jsx\<close>

record hover_classes =
  hover_bg :: string
  hover_shadow :: string

record opacity_classes =
  bg :: string
  border :: string
  borderB :: string
  borderR :: string
  shadow :: string
  hover :: hover_classes

definition opacityMap_light :: opacity_classes where
  "opacityMap_light =
     \<lparr>bg = ''bg-white/45'',
      border = ''border-white/60'',
      borderB = ''border-b-white/30'',
      borderR = ''border-r-white/30'',
      shadow = ''shadow-[0_8px_32px_0_rgba(31,38,135,0.04)]'',
      hover =
        \<lparr>hover_bg = ''hover:bg-white/55'',
         hover_shadow = ''hover:shadow-[0_12px_40px_0_rgba(31,38,135,0.08)]''\<rparr>\<rparr>"

definition opacityMap_standard :: opacity_classes where
  "opacityMap_standard =
     \<lparr>bg = ''bg-white/65'',
      border = ''border-white/80'',
      borderB = ''border-b-white/40'',
      borderR = ''border-r-white/40'',
      shadow = ''shadow-[0_8px_32px_0_rgba(31,38,135,0.07)]'',
      hover =
        \<lparr>hover_bg = ''hover:bg-white/75'',
         hover_shadow = ''hover:shadow-[0_12px_40px_0_rgba(31,38,135,0.12)]''\<rparr>\<rparr>"

definition opacityMap_dark :: opacity_classes where
  "opacityMap_dark =
     \<lparr>bg = ''bg-white/85'',
      border = ''border-white/95'',
      borderB = ''border-b-white/70'',
      borderR = ''border-r-white/70'',
      shadow = ''shadow-[0_8px_32px_0_rgba(31,38,135,0.1)]'',
      hover =
        \<lparr>hover_bg = ''hover:bg-white/90'',
         hover_shadow = ''hover:shadow-[0_12px_40px_0_rgba(31,38,135,0.14)]''\<rparr>\<rparr>"

definition opacityMap_opaque :: opacity_classes where
  "opacityMap_opaque =
     \<lparr>bg = ''bg-white/95'',
      border = ''border-white/100'',
      borderB = ''border-b-white/80'',
      borderR = ''border-r-white/80'',
      shadow = ''shadow-[0_8px_32px_0_rgba(31,38,135,0.12)]'',
      hover =
        \<lparr>hover_bg = ''hover:bg-white/98'',
         hover_shadow = ''hover:shadow-[0_12px_40px_0_rgba(31,38,135,0.15)]''\<rparr>\<rparr>"

definition opacityMap :: "(string \<times> opacity_classes) list" where
  "opacityMap =
     [(''light'', opacityMap_light),
      (''standard'', opacityMap_standard),
      (''dark'', opacityMap_dark),
      (''opaque'', opacityMap_opaque)]"

text \<open>
  \<open>opacityMap[opacity] || opacityMap.standard\<close>. The result is an entry of the table, or
  \<open>None\<close> for an inherited member, every field of which reads as \<open>undefined\<close>.
\<close>

definition currentOpacity :: "string \<Rightarrow> opacity_classes option" where
  "currentOpacity opacity =
     (case get_property opacityMap opacity of
        Own e \<Rightarrow> Some e
      | Inherited \<Rightarrow> None
      | Missing \<Rightarrow> Some opacityMap_standard)"

definition baseClasses :: "opacity_classes option \<Rightarrow> string option list" where
  "baseClasses cur =
     [map_option bg cur,
      Some ''backdrop-blur-[16px]'',
      Some ''-webkit-backdrop-filter-blur-[16px]'',
      Some ''border'',
      map_option border cur,
      map_option borderB cur,
      map_option borderR cur,
      map_option shadow cur,
      Some ''rounded-3xl'',
      Some ''p-6'',
      Some ''transition-all'',
      Some ''duration-300'',
      Some ''ease-in-out'']"

definition variantClasses :: "(string \<times> string list) list" where
  "variantClasses =
     [(''default'', [''w-full'', ''sm:w-80'']),
      (''small'', [''w-36'', ''h-36'']),
      (''large'', [''w-full'', ''sm:w-96''])]"

text \<open>
  \<open>currentOpacity.hover.shadow\<close> is a read of a field of \<open>undefined\<close> when
  \<open>currentOpacity\<close> is an inherited member: a TypeError.
\<close>

definition interactiveClasses ::
    "opacity_classes option \<Rightarrow> bool \<Rightarrow> error + string option list" where
  "interactiveClasses cur interactive =
     (if interactive
      then (case cur of
              Some e \<Rightarrow>
                Inr [Some (hover_shadow (hover e)),
                     Some ''hover:-translate-y-1'',
                     Some (hover_bg (hover e)),
                     Some ''cursor-pointer'']
            | None \<Rightarrow> Inl TypeError)
      else Inr [])"

text \<open>
  \<open>...(variantClasses[variant] || variantClasses.default)\<close>: spreading an inherited
  member, which is not iterable, is a TypeError.
\<close>

definition spread_variant :: "string \<Rightarrow> error + string option list" where
  "spread_variant variant =
     (case get_property variantClasses variant of
        Own cs \<Rightarrow> Inr (map Some cs)
      | Inherited \<Rightarrow> Inl TypeError
      | Missing \<Rightarrow> Inr [Some ''w-full'', Some ''sm:w-80''])"

text \<open>
  The props of the card; \<open>None\<close> is an omitted prop. \<open>'c\<close> is the type of the child
  content. The remaining props (\<open>...rest\<close>) are passed to the element unchanged and are
  left out. The card uses \<open>opacity\<close> and \<open>variant\<close> as property names only, so a value
  that is not a string behaves as the string it converts to (\<open>null\<close> as \<open>''null''\<close>).
\<close>

record 'c card_props =
  children :: "'c option"
  className :: "string option"
  variant :: "string option"
  opacity :: "string option"
  interactive :: "bool option"
  role :: "string option"
  ariaLabel :: "string option"
  ariaDescribedBy :: "string option"

text \<open>The rendered \<open>article\<close> element.\<close>

record 'c element =
  el_className :: string
  el_role :: string
  el_ariaLabel :: "string option"
  el_ariaDescribedBy :: "string option"
  el_children :: "'c option"

text \<open>
  The array \<open>allClasses\<close> before it is joined. \<open>interactiveClasses\<close> is computed before
  the variant is spread, as in the source.
\<close>

definition allClasses :: "'c card_props \<Rightarrow> error + string option list" where
  "allClasses p =
     (let cur = currentOpacity (or_default (opacity p) ''standard'') in
      case interactiveClasses cur (or_default (interactive p) True) of
        Inl e \<Rightarrow> Inl e
      | Inr ic \<Rightarrow>
          (case spread_variant (or_default (variant p) ''default'') of
             Inl e \<Rightarrow> Inl e
           | Inr vc \<Rightarrow> Inr (baseClasses cur @ vc @ ic @ [Some (or_default (className p) [])])))"

definition GlassCard :: "'c card_props \<Rightarrow> error + 'c element" where
  "GlassCard p =
     (case allClasses p of
        Inl e \<Rightarrow> Inl e
      | Inr cs \<Rightarrow>
          Inr \<lparr>el_className = join cs,
               el_role = or_default (role p) ''article'',
               el_ariaLabel = ariaLabel p,
               el_ariaDescribedBy = ariaDescribedBy p,
               el_children = children p\<rparr>)"

text \<open>
  \<open>GlassCard.propTypes\<close> declares \<open>children\<close> as \<open>PropTypes.node.isRequired\<close>. The
  declaration is data attached to the component: the render function above does not read
  it. The names of the required props a call leaves out:
\<close>

definition propTypes_missing :: "'c card_props \<Rightarrow> string list" where
  "propTypes_missing p = (case children p of None \<Rightarrow> [''children''] | Some _ \<Rightarrow> [])"

text \<open>
  Reading a visual channel off a list of classes: the number that follows a prefix, in
  the first class that starts with the prefix.
\<close>

definition is_digit :: "char \<Rightarrow> bool" where
  "is_digit c = (c \<in> set ''0123456789'')"

definition digit_val :: "char \<Rightarrow> nat" where
  "digit_val c = length (takeWhile (\<lambda>d. d \<noteq> c) ''0123456789'')"

definition nat_of_digits :: "string \<Rightarrow> nat" where
  "nat_of_digits s = foldl (\<lambda>n c. 10 * n + digit_val c) 0 s"

definition leading_number :: "string \<Rightarrow> nat" where
  "leading_number s = nat_of_digits (takeWhile is_digit s)"

definition class_value :: "string \<Rightarrow> string option list \<Rightarrow> nat option" where
  "class_value prefix cs =
     (case filter (\<lambda>c. take (length prefix) c = prefix) (map (\<lambda>c. or_default c []) cs) of
        [] \<Rightarrow> None
      | c # _ \<Rightarrow> Some (leading_number (drop (length prefix) c)))"

text \<open>
  The background alpha, in percent, and the blur radius, in pixels, of the card at an
  opacity: the classes \<open>bg-white/N\<close> and \<open>backdrop-blur-[Npx]\<close> of \<open>baseClasses\<close>.
\<close>

definition card_backgroundAlpha :: "string \<Rightarrow> nat option" where
  "card_backgroundAlpha opacity' = class_value ''bg-white/'' (baseClasses (currentOpacity opacity'))"

definition card_blurRadiusPx :: "string \<Rightarrow> nat option" where
  "card_blurRadiusPx opacity' =
     class_value ''backdrop-blur-['' (baseClasses (currentOpacity opacity'))"

section \<open>FrostedGlassPanel\<close>

record glass_config =
  config_bg :: string
  config_border :: string
  config_blur :: string
  config_shadow :: string

record size_config =
  width :: string
  padding :: string
  borderRadius :: string

definition opacityConfig_contentLight :: glass_config where
  "opacityConfig_contentLight =
     \<lparr>config_bg = ''rgba(255, 255, 255, 0.08)'',
      config_border = ''rgba(255, 255, 255, 0.15)'',
      config_blur = ''4px'',
      config_shadow =
        ''0 8px 20px rgba(0, 0, 0, 0.15)'' @
        '', inset 0 1px 0 rgba(255, 255, 255, 0.4)'' @
        '', inset 0 -1px 0 rgba(0, 0, 0, 0.08)'' @
        '', inset -1px -1px 4px rgba(255, 255, 255, 0.1)'' @
        '', inset 1px 1px 4px rgba(0, 0, 0, 0.04)''\<rparr>"

definition opacityConfig_contentStandard :: glass_config where
  "opacityConfig_contentStandard =
     \<lparr>config_bg = ''rgba(255, 255, 255, 0.12)'',
      config_border = ''rgba(255, 255, 255, 0.2)'',
      config_blur = ''6px'',
      config_shadow =
        ''0 10px 30px rgba(0, 0, 0, 0.2)'' @
        '', inset 0 1px 0 rgba(255, 255, 255, 0.5)'' @
        '', inset 0 -1px 0 rgba(0, 0, 0, 0.1)'' @
        '', inset -1px -1px 5px rgba(255, 255, 255, 0.12)'' @
        '', inset 1px 1px 5px rgba(0, 0, 0, 0.05)''\<rparr>"

definition opacityConfig_contentDark :: glass_config where
  "opacityConfig_contentDark =
     \<lparr>config_bg = ''rgba(255, 255, 255, 0.18)'',
      config_border = ''rgba(255, 255, 255, 0.25)'',
      config_blur = ''8px'',
      config_shadow =
        ''0 12px 35px rgba(0, 0, 0, 0.25)'' @
        '', inset 0 1px 0 rgba(255, 255, 255, 0.6)'' @
        '', inset 0 -1px 0 rgba(0, 0, 0, 0.12)'' @
        '', inset -1px -1px 6px rgba(255, 255, 255, 0.15)'' @
        '', inset 1px 1px 6px rgba(0, 0, 0, 0.06)''\<rparr>"

definition opacityConfig_navLight :: glass_config where
  "opacityConfig_navLight =
     \<lparr>config_bg = ''rgba(255, 255, 255, 0.15)'',
      config_border = ''rgba(255, 255, 255, 0.25)'',
      config_blur = ''10px'',
      config_shadow =
        ''0 15px 40px rgba(0, 0, 0, 0.3)'' @
        '', inset 0 1px 0 rgba(255, 255, 255, 0.5)'' @
        '', inset 0 -1px 0 rgba(0, 0, 0, 0.15)'' @
        '', inset -2px -2px 8px rgba(255, 255, 255, 0.15)'' @
        '', inset 2px 2px 8px rgba(0, 0, 0, 0.08)''\<rparr>"

definition opacityConfig_navStandard :: glass_config where
  "opacityConfig_navStandard =
     \<lparr>config_bg = ''rgba(255, 255, 255, 0.25)'',
      config_border = ''rgba(255, 255, 255, 0.3)'',
      config_blur = ''12px'',
      config_shadow =
        ''0 20px 60px rgba(0, 0, 0, 0.4)'' @
        '', inset 0 1px 0 rgba(255, 255, 255, 0.6)'' @
        '', inset 0 -1px 0 rgba(0, 0, 0, 0.2)'' @
        '', inset -2px -2px 8px rgba(255, 255, 255, 0.2)'' @
        '', inset 2px 2px 8px rgba(0, 0, 0, 0.1)''\<rparr>"

definition opacityConfig_navDark :: glass_config where
  "opacityConfig_navDark =
     \<lparr>config_bg = ''rgba(255, 255, 255, 0.35)'',
      config_border = ''rgba(255, 255, 255, 0.4)'',
      config_blur = ''14px'',
      config_shadow =
        ''0 25px 70px rgba(0, 0, 0, 0.45)'' @
        '', inset 0 1px 0 rgba(255, 255, 255, 0.7)'' @
        '', inset 0 -1px 0 rgba(0, 0, 0, 0.25)'' @
        '', inset -2px -2px 10px rgba(255, 255, 255, 0.25)'' @
        '', inset 2px 2px 10px rgba(0, 0, 0, 0.12)''\<rparr>"

definition opacityConfig_light :: glass_config where
  "opacityConfig_light =
     \<lparr>config_bg = ''rgba(255, 255, 255, 0.15)'',
      config_border = ''rgba(255, 255, 255, 0.25)'',
      config_blur = ''10px'',
      config_shadow =
        ''0 15px 40px rgba(0, 0, 0, 0.3)'' @
        '', inset 0 1px 0 rgba(255, 255, 255, 0.5)'' @
        '', inset 0 -1px 0 rgba(0, 0, 0, 0.15)'' @
        '', inset -2px -2px 8px rgba(255, 255, 255, 0.15)'' @
        '', inset 2px 2px 8px rgba(0, 0, 0, 0.08)''\<rparr>"

definition opacityConfig_standard :: glass_config where
  "opacityConfig_standard =
     \<lparr>config_bg = ''rgba(255, 255, 255, 0.25)'',
      config_border = ''rgba(255, 255, 255, 0.3)'',
      config_blur = ''12px'',
      config_shadow =
        ''0 20px 60px rgba(0, 0, 0, 0.4)'' @
        '', inset 0 1px 0 rgba(255, 255, 255, 0.6)'' @
        '', inset 0 -1px 0 rgba(0, 0, 0, 0.2)'' @
        '', inset -2px -2px 8px rgba(255, 255, 255, 0.2)'' @
        '', inset 2px 2px 8px rgba(0, 0, 0, 0.1)''\<rparr>"

definition opacityConfig_dark :: glass_config where
  "opacityConfig_dark =
     \<lparr>config_bg = ''rgba(255, 255, 255, 0.35)'',
      config_border = ''rgba(255, 255, 255, 0.4)'',
      config_blur = ''14px'',
      config_shadow =
        ''0 25px 70px rgba(0, 0, 0, 0.45)'' @
        '', inset 0 1px 0 rgba(255, 255, 255, 0.7)'' @
        '', inset 0 -1px 0 rgba(0, 0, 0, 0.25)'' @
        '', inset -2px -2px 10px rgba(255, 255, 255, 0.25)'' @
        '', inset 2px 2px 10px rgba(0, 0, 0, 0.12)''\<rparr>"

definition opacityConfig_opaque :: glass_config where
  "opacityConfig_opaque =
     \<lparr>config_bg = ''rgba(255, 255, 255, 0.45)'',
      config_border = ''rgba(255, 255, 255, 0.5)'',
      config_blur = ''16px'',
      config_shadow =
        ''0 30px 80px rgba(0, 0, 0, 0.5)'' @
        '', inset 0 1px 0 rgba(255, 255, 255, 0.8)'' @
        '', inset 0 -1px 0 rgba(0, 0, 0, 0.3)'' @
        '', inset -2px -2px 12px rgba(255, 255, 255, 0.3)'' @
        '', inset 2px 2px 12px rgba(0, 0, 0, 0.15)''\<rparr>"

definition opacityConfig :: "(string \<times> glass_config) list" where
  "opacityConfig =
     [(''contentLight'', opacityConfig_contentLight),
      (''contentStandard'', opacityConfig_contentStandard),
      (''contentDark'', opacityConfig_contentDark),
      (''navLight'', opacityConfig_navLight),
      (''navStandard'', opacityConfig_navStandard),
      (''navDark'', opacityConfig_navDark),
      (''light'', opacityConfig_light),
      (''standard'', opacityConfig_standard),
      (''dark'', opacityConfig_dark),
      (''opaque'', opacityConfig_opaque)]"

definition sizeConfig_small :: size_config where
  "sizeConfig_small = \<lparr>width = ''280px'', padding = ''20px'', borderRadius = ''20px''\<rparr>"

definition sizeConfig_medium :: size_config where
  "sizeConfig_medium = \<lparr>width = ''400px'', padding = ''30px'', borderRadius = ''25px''\<rparr>"

definition sizeConfig_large :: size_config where
  "sizeConfig_large = \<lparr>width = ''600px'', padding = ''40px'', borderRadius = ''30px''\<rparr>"

definition sizeConfig_fullWidth :: size_config where
  "sizeConfig_fullWidth = \<lparr>width = ''100%'', padding = ''40px'', borderRadius = ''25px''\<rparr>"

definition sizeConfig :: "(string \<times> size_config) list" where
  "sizeConfig =
     [(''small'', sizeConfig_small),
      (''medium'', sizeConfig_medium),
      (''large'', sizeConfig_large),
      (''fullWidth'', sizeConfig_fullWidth)]"

text \<open>
  \<open>opacity.charAt(0).toUpperCase() + opacity.slice(1)\<close>, for an ASCII string (the type
  \<open>string\<close> holds no other).
\<close>

definition toUpperCase :: "char \<Rightarrow> char" where
  "toUpperCase c =
     (case map_of (zip ''abcdefghijklmnopqrstuvwxyz'' ''ABCDEFGHIJKLMNOPQRSTUVWXYZ'') c of
        None \<Rightarrow> c
      | Some u \<Rightarrow> u)"

fun capitalize :: "string \<Rightarrow> string" where
  "capitalize [] = []"
| "capitalize (c # cs) = toUpperCase c # cs"

definition configKey :: "string \<Rightarrow> string \<Rightarrow> string" where
  "configKey variant' opacity' =
     (if variant' = ''nav'' then ''nav'' @ capitalize opacity'
      else ''content'' @ capitalize opacity')"

text \<open>
  \<open>opacityConfig[configKey] || opacityConfig[opacity] || opacityConfig.standard\<close> and
  \<open>sizeConfig[size] || sizeConfig.medium\<close>; \<open>None\<close> is an inherited member again.
\<close>

definition config :: "string \<Rightarrow> string \<Rightarrow> glass_config option" where
  "config variant' opacity' =
     (case get_property opacityConfig (configKey variant' opacity') of
        Own c \<Rightarrow> Some c
      | Inherited \<Rightarrow> None
      | Missing \<Rightarrow>
          (case get_property opacityConfig opacity' of
             Own c \<Rightarrow> Some c
           | Inherited \<Rightarrow> None
           | Missing \<Rightarrow> Some opacityConfig_standard))"

definition sizeStyle :: "string \<Rightarrow> size_config option" where
  "sizeStyle size' =
     (case get_property sizeConfig size' of
        Own c \<Rightarrow> Some c
      | Inherited \<Rightarrow> None
      | Missing \<Rightarrow> Some sizeConfig_medium)"

text \<open>
  The \<open>style\<close> object of the panel, without its constant fields (\<open>position\<close>,
  \<open>overflow\<close>) and without \<open>WebkitBackdropFilter\<close>, which repeats \<open>backdropFilter\<close>; and
  the alpha of the highlight edge. A field read from an inherited member is \<open>undefined\<close>
  (\<open>None\<close>), and prints as \<open>undefined\<close> inside a template literal. The hover handlers,
  which change the element after it is rendered, are left out.
\<close>

record style =
  style_width :: "string option"
  style_padding :: "string option"
  style_background :: "string option"
  style_backdropFilter :: string
  style_border :: string
  style_borderRadius :: "string option"
  style_boxShadow :: "string option"
  style_cursor :: "string option"
  style_transition :: "string option"
  highlight_alpha :: string

definition template :: "string option \<Rightarrow> string" where
  "template x = or_default x ''undefined''"

definition frosted_style :: "string \<Rightarrow> string \<Rightarrow> string \<Rightarrow> bool \<Rightarrow> style" where
  "frosted_style opacity' variant' size' interactive' =
     (let cfg = config variant' opacity'; sz = sizeStyle size' in
      \<lparr>style_width = map_option width sz,
       style_padding = map_option padding sz,
       style_background = map_option config_bg cfg,
       style_backdropFilter = ''blur('' @ template (map_option config_blur cfg) @ '')'',
       style_border = ''1px solid '' @ template (map_option config_border cfg),
       style_borderRadius = map_option borderRadius sz,
       style_boxShadow = map_option config_shadow cfg,
       style_cursor = (if interactive' then Some ''pointer'' else None),
       style_transition = (if interactive' then Some ''all 0.3s ease'' else None),
       highlight_alpha =
         (if opacity' = ''opaque'' then ''0.7'' else if opacity' = ''dark'' then ''0.6'' else ''0.5'')\<rparr>)"

text \<open>
  What a caller passes as \<open>opacity\<close>: a string, or a value that is not a string and has
  no method \<open>charAt\<close> (\<open>null\<close>, a number, a boolean), on which \<open>opacity.charAt(0)\<close> is a
  TypeError. The variant is only compared with \<open>===\<close> and the size is only used as a
  property name, so for them a value that is not a string behaves as the string it
  converts to.
\<close>

datatype prop_value = Str string | NotString

text \<open>
  The panel with its props, an omitted (\<open>undefined\<close>) one taking its default. \<open>configKey\<close>
  is computed first, so a value of \<open>opacity\<close> that is not a string throws before anything
  is resolved.
\<close>

definition FrostedGlassPanel ::
    "prop_value option \<Rightarrow> string option \<Rightarrow> string option \<Rightarrow> bool option \<Rightarrow> error + style" where
  "FrostedGlassPanel opacity' variant' size' interactive' =
     (case or_default opacity' (Str ''standard'') of
        NotString \<Rightarrow> Inl TypeError
      | Str s \<Rightarrow>
          Inr (frosted_style s (or_default variant' ''content'') (or_default size' ''medium'')
                 (or_default interactive' True)))"

text \<open>
  Reading the visual channels off the style: the alpha of an \<open>rgba(r, g, b, a)\<close> colour,
  the radius of \<open>blur(Npx)\<close>, and the layers of a \<open>box-shadow\<close> value, which are
  separated by the commas outside parentheses; a layer is an inset one when it starts
  with the word \<open>inset\<close>.
\<close>

fun after_commas :: "nat \<Rightarrow> string \<Rightarrow> string" where
  "after_commas 0 s = s"
| "after_commas (Suc n) s = after_commas n (drop 1 (dropWhile (\<lambda>c. c \<noteq> CHR '','') s))"

definition decimal :: "string \<Rightarrow> rat" where
  "decimal s =
     (let ip = takeWhile is_digit s;
          fp = takeWhile is_digit (drop 1 (dropWhile is_digit s))
      in of_nat (nat_of_digits ip) + of_nat (nat_of_digits fp) / 10 ^ length fp)"

definition rgba_alpha :: "string \<Rightarrow> rat" where
  "rgba_alpha s = decimal (dropWhile (\<lambda>c. c = CHR '' '') (after_commas 3 s))"

fun split_layers :: "string \<Rightarrow> nat \<Rightarrow> string \<Rightarrow> string list" where
  "split_layers [] depth acc = [rev acc]"
| "split_layers (c # cs) depth acc =
     (if c = CHR '','' \<and> depth = 0 then rev acc # split_layers cs depth []
      else if c = CHR ''('' then split_layers cs (Suc depth) (c # acc)
      else if c = CHR '')'' then split_layers cs (depth - 1) (c # acc)
      else split_layers cs depth (c # acc))"

definition shadow_layers :: "string \<Rightarrow> string list" where
  "shadow_layers s = map (dropWhile (\<lambda>c. c = CHR '' '')) (split_layers s 0 [])"

definition is_inset :: "string \<Rightarrow> bool" where
  "is_inset layer = (take 5 layer = ''inset'')"

text \<open>The numbers of outer and of inset layers of a \<open>box-shadow\<close> value.\<close>

definition layer_counts :: "string \<Rightarrow> nat \<times> nat" where
  "layer_counts s =
     (length (filter (\<lambda>l. \<not> is_inset l) (shadow_layers s)),
      length (filter is_inset (shadow_layers s)))"

definition frosted_backgroundAlpha :: "style \<Rightarrow> rat option" where
  "frosted_backgroundAlpha s = map_option rgba_alpha (style_background s)"

definition frosted_blurRadiusPx :: "style \<Rightarrow> nat" where
  "frosted_blurRadiusPx s = leading_number (drop 5 (style_backdropFilter s))"

definition frosted_layer_counts :: "style \<Rightarrow> (nat \<times> nat) option" where
  "frosted_layer_counts s = map_option layer_counts (style_boxShadow s)"

text \<open>The four visual tiers, lowest first, under the names the shells use.\<close>

definition tiers :: "string list" where
  "tiers = [''light'', ''standard'', ''dark'', ''opaque'']"

section \<open>Properties of the playback card\<close>

text \<open>The equations of \<open>dispatch\<close>, and \<open>run\<close> as a run of steps.\<close>

lemma dispatch_simps [simp]:
  "dispatch p st Click = handlePlayToggle p st"
  "dispatch p st (KeyDown code) = handleKeyDown p st code"
  "dispatch p st (ProgressClick e) = handleProgressClick st e"
  by (simp_all add: dispatch_def handlePlayToggle_def handleKeyDown_def)

lemma run_is_render_after_each_event:
  "run_steps p \<lparr>shown = st, cells = st\<rparr> (concat (map (\<lambda>ev. [Event ev, Render]) evs)) =
     (\<lparr>shown = fst (run p st evs), cells = fst (run p st evs)\<rparr>, snd (run p st evs))"
proof (induction evs arbitrary: st)
  case Nil
  show ?case
    by simp
next
  case (Cons ev evs)
  obtain st' eff where d: "dispatch_from p st st ev = (st', eff)"
    by (cases "dispatch_from p st st ev")
  obtain st'' ns where r: "run p st' evs = (st'', ns)"
    by (cases "run p st' evs")
  show ?case
    using Cons.IH [of st'] by (simp add: dispatch_def d r)
qed

text \<open>
  The percentage is the one the doubles give: 29 / 200 * 100 is just below 14.5 in
  doubles, so the click is rounded to 14.
\<close>

lemma newProgress_in_doubles:
  "newProgress \<lparr>clientX = 39, rect_left = 10, rect_width = 200\<rparr> = Num 14"
  by code_simp

text \<open>
  Without a render in between, the second toggle runs the handler of the same render as
  the first: it writes Playing again and calls the callback with \<open>True\<close> again.
\<close>

lemma toggle_twice_in_one_render:
  "run_steps p
     \<lparr>shown = \<lparr>isPlaying = False, currentProgress = c\<rparr>,
      cells = \<lparr>isPlaying = False, currentProgress = c\<rparr>\<rparr>
     [Event Click, Event Click, Render] =
     (\<lparr>shown = \<lparr>isPlaying = True, currentProgress = c\<rparr>,
       cells = \<lparr>isPlaying = True, currentProgress = c\<rparr>\<rparr>,
      if onPlayChange p then [True, True] else [])"
  by (simp add: handlePlayToggle_from_def)



text \<open>
  C2. A key whose code is \<open>Space\<close> or \<open>Enter\<close> gives the same next state and the same
  callback arguments as a click on the button; a key with any other code leaves the state
  as it is and calls nothing.
\<close>

theorem key_equals_click:
  "(code = ''Space'' \<or> code = ''Enter'' \<longrightarrow>
      fst (dispatch p st (KeyDown code)) = fst (dispatch p st Click)
      \<and> notified (snd (dispatch p st (KeyDown code))) = notified (snd (dispatch p st Click)))
   \<and> (code \<noteq> ''Space'' \<and> code \<noteq> ''Enter'' \<longrightarrow>
      fst (dispatch p st (KeyDown code)) = st
      \<and> notified (snd (dispatch p st (KeyDown code))) = [])"
  by (simp add: handleKeyDown_def handleKeyDown_from_def handlePlayToggle_def
        handlePlayToggle_from_def no_effects_def)

theorem key_equals_click_witness:
  "fst (dispatch \<lparr>progress = None, onPlayChange = True\<rparr>
          \<lparr>isPlaying = True, currentProgress = Num 60\<rparr> (KeyDown ''Space'')) =
     \<lparr>isPlaying = False, currentProgress = Num 60\<rparr>
   \<and> notified (snd (dispatch \<lparr>progress = None, onPlayChange = True\<rparr>
          \<lparr>isPlaying = True, currentProgress = Num 60\<rparr> (KeyDown ''Enter''))) = [False]
   \<and> fst (dispatch \<lparr>progress = None, onPlayChange = True\<rparr>
          \<lparr>isPlaying = True, currentProgress = Num 60\<rparr> (KeyDown ''Tab'')) =
     \<lparr>isPlaying = True, currentProgress = Num 60\<rparr>
   \<and> notified (snd (dispatch \<lparr>progress = None, onPlayChange = True\<rparr>
          \<lparr>isPlaying = True, currentProgress = Num 60\<rparr> (KeyDown ''Tab''))) = []"
  using key_equals_click [of "''Space''" "\<lparr>progress = None, onPlayChange = True\<rparr>"
          "\<lparr>isPlaying = True, currentProgress = Num 60\<rparr>"]
        key_equals_click [of "''Enter''" "\<lparr>progress = None, onPlayChange = True\<rparr>"
          "\<lparr>isPlaying = True, currentProgress = Num 60\<rparr>"]
        key_equals_click [of "''Tab''" "\<lparr>progress = None, onPlayChange = True\<rparr>"
          "\<lparr>isPlaying = True, currentProgress = Num 60\<rparr>"]
  by (simp add: handlePlayToggle_def handlePlayToggle_from_def)

text \<open>
  C3. \<open>setProgress\<close> clamps into [0, 100]: the stored progress is 0 for a value below 0,
  100 for a value above 100 and the value itself otherwise; so -5 gives 0, 150 gives 100
  and 42 gives 42. The click handler is \<open>setProgress\<close> at the rounded percentage.
\<close>

theorem setProgress_clamps:
  "currentProgress (fst (setProgress st v)) =
     (if js_less v (Num 0) then Num 0 else if js_less (Num 100) v then Num 100 else v)
   \<and> currentProgress (fst (setProgress st (Num (- 5)))) = Num 0
   \<and> currentProgress (fst (setProgress st (Num 150))) = Num 100
   \<and> currentProgress (fst (setProgress st (Num 42))) = Num 42
   \<and> handleProgressClick st e = setProgress st (newProgress e)"
  by (cases v) (simp_all add: setProgress_def handleProgressClick_def)

theorem setProgress_clamps_witness:
  "currentProgress (fst (handleProgressClick \<lparr>isPlaying = False, currentProgress = Num 60\<rparr>
      \<lparr>clientX = 5, rect_left = 10, rect_width = 100\<rparr>)) = Num 0
   \<and> currentProgress (fst (handleProgressClick \<lparr>isPlaying = False, currentProgress = Num 60\<rparr>
      \<lparr>clientX = 310, rect_left = 10, rect_width = 200\<rparr>)) = Num 100
   \<and> currentProgress (fst (handleProgressClick \<lparr>isPlaying = False, currentProgress = Num 60\<rparr>
      \<lparr>clientX = 94, rect_left = 10, rect_width = 200\<rparr>)) = Num 42"
proof -
  have a: "newProgress \<lparr>clientX = 5, rect_left = 10, rect_width = 100\<rparr> = Num (- 5)"
    by code_simp
  have b: "newProgress \<lparr>clientX = 310, rect_left = 10, rect_width = 200\<rparr> = Num 150"
    by code_simp
  have c: "newProgress \<lparr>clientX = 94, rect_left = 10, rect_width = 200\<rparr> = Num 42"
    by code_simp
  show ?thesis
    using setProgress_clamps [of "\<lparr>isPlaying = False, currentProgress = Num 60\<rparr>" "Num (- 5)"
          "\<lparr>clientX = 5, rect_left = 10, rect_width = 100\<rparr>"]
        setProgress_clamps [of "\<lparr>isPlaying = False, currentProgress = Num 60\<rparr>" "Num 150"
          "\<lparr>clientX = 310, rect_left = 10, rect_width = 200\<rparr>"]
        setProgress_clamps [of "\<lparr>isPlaying = False, currentProgress = Num 60\<rparr>" "Num 42"
          "\<lparr>clientX = 94, rect_left = 10, rect_width = 200\<rparr>"]
    by (simp add: a b c)
qed

text \<open>
  C4. \<open>setProgress\<close>, and so a click on the progress bar, changes the progress only: the
  status is as before, nothing is passed to the callback and no other effect happens.
  After \<open>setProgress\<close> of 30 the range-value triple is (30, 0, 100) and the pressed
  indicator is the one before.
\<close>

theorem setProgress_frame:
  "isPlaying (fst (setProgress st v)) = isPlaying st
   \<and> snd (setProgress st v) = no_effects
   \<and> notified (snd (setProgress st v)) = []
   \<and> isPlaying (fst (dispatch p st (ProgressClick e))) = isPlaying st
   \<and> notified (snd (dispatch p st (ProgressClick e))) = []
   \<and> aria_valuenow (render (fst (setProgress st (Num 30)))) = Num 30
   \<and> aria_valuemin (render (fst (setProgress st (Num 30)))) = ''0''
   \<and> aria_valuemax (render (fst (setProgress st (Num 30)))) = ''100''
   \<and> aria_pressed (render (fst (setProgress st (Num 30)))) = aria_pressed (render st)"
  by (simp add: setProgress_def handleProgressClick_def no_effects_def render_def)

theorem setProgress_frame_witness:
  "run \<lparr>progress = None, onPlayChange = True\<rparr> (initial \<lparr>progress = None, onPlayChange = True\<rparr>)
     [KeyDown ''Space'', ProgressClick \<lparr>clientX = 70, rect_left = 10, rect_width = 200\<rparr>] =
     (\<lparr>isPlaying = True, currentProgress = Num 30\<rparr>, [True])
   \<and> isPlaying (fst (setProgress \<lparr>isPlaying = True, currentProgress = Num 60\<rparr> (Num 30)))
   \<and> aria_valuenow (render (fst (setProgress \<lparr>isPlaying = True, currentProgress = Num 60\<rparr> (Num 30)))) = Num 30"
proof -
  have a: "newProgress \<lparr>clientX = 70, rect_left = 10, rect_width = 200\<rparr> = Num 30"
    by code_simp
  show ?thesis
    using setProgress_frame [of "\<lparr>isPlaying = True, currentProgress = Num 60\<rparr>" "Num 30"
          "\<lparr>progress = None, onPlayChange = True\<rparr>"
          "\<lparr>clientX = 70, rect_left = 10, rect_width = 200\<rparr>"]
    by (simp add: initial_def handleKeyDown_def handleKeyDown_from_def handlePlayToggle_from_def
          handleProgressClick_def setProgress_def a)
qed

text \<open>
  C7. The pressed indicator and the live-region text are both computed from the status
  of the one state a render shows: two states of the same status give the same indicator
  and the same text, the text is the one for Playing exactly when the indicator is set,
  and the render after a toggle has both flipped.
\<close>

theorem aria_sync:
  "aria_pressed (render st) = isPlaying st
   \<and> live_region (render st) = (if isPlaying st then live_playing else live_paused)
   \<and> (live_region (render st) = live_playing) = aria_pressed (render st)
   \<and> (live_region (render st) = live_paused) = (\<not> aria_pressed (render st))
   \<and> (isPlaying st = isPlaying st' \<longrightarrow>
        aria_pressed (render st) = aria_pressed (render st')
        \<and> live_region (render st) = live_region (render st'))
   \<and> aria_pressed (render (fst (handlePlayToggle p st))) = (\<not> aria_pressed (render st))
   \<and> live_region (render (fst (handlePlayToggle p st))) =
       (if aria_pressed (render st) then live_paused else live_playing)"
  by (simp add: render_def handlePlayToggle_def handlePlayToggle_from_def live_playing_def
        live_paused_def)

theorem aria_sync_witness:
  "aria_pressed (render \<lparr>isPlaying = True, currentProgress = Num 60\<rparr>) =
     aria_pressed (render \<lparr>isPlaying = True, currentProgress = Num 30\<rparr>)
   \<and> live_region (render \<lparr>isPlaying = True, currentProgress = Num 60\<rparr>) =
     live_region (render \<lparr>isPlaying = True, currentProgress = Num 30\<rparr>)
   \<and> aria_pressed (render (fst (handlePlayToggle \<lparr>progress = None, onPlayChange = True\<rparr>
         \<lparr>isPlaying = False, currentProgress = Num 60\<rparr>)))
   \<and> live_region (render (fst (handlePlayToggle \<lparr>progress = None, onPlayChange = True\<rparr>
         \<lparr>isPlaying = False, currentProgress = Num 60\<rparr>))) = [0x6B63, 0x5728, 0x64AD, 0x653E]"
  using aria_sync [of "\<lparr>isPlaying = True, currentProgress = Num 60\<rparr>"
          "\<lparr>isPlaying = True, currentProgress = Num 30\<rparr>"
          "\<lparr>progress = None, onPlayChange = True\<rparr>"]
        aria_sync [of "\<lparr>isPlaying = False, currentProgress = Num 60\<rparr>"
          "\<lparr>isPlaying = False, currentProgress = Num 60\<rparr>"
          "\<lparr>progress = None, onPlayChange = True\<rparr>"]
  by (simp add: render_def handlePlayToggle_def handlePlayToggle_from_def live_playing_def
        live_paused_def)

text \<open>
  C10. The initial progress is stored as the caller gave it, in range or not: the fresh
  card has that progress and reports it as \<open>aria-valuenow\<close>, with status Idle. A toggle
  or a key leaves the progress as it is, so only \<open>setProgress\<close> brings it into [0, 100].
\<close>

theorem initial_progress_unclamped:
  "currentProgress (initial \<lparr>progress = Some v, onPlayChange = cb\<rparr>) = v
   \<and> aria_valuenow (render (initial \<lparr>progress = Some v, onPlayChange = cb\<rparr>)) = v
   \<and> isPlaying (initial \<lparr>progress = Some v, onPlayChange = cb\<rparr>) = False
   \<and> currentProgress (fst (dispatch p st Click)) = currentProgress st
   \<and> currentProgress (fst (dispatch p st (KeyDown code))) = currentProgress st"
  by (simp add: initial_def render_def handlePlayToggle_def handlePlayToggle_from_def
        handleKeyDown_def handleKeyDown_from_def)

theorem initial_progress_unclamped_witness:
  "aria_valuenow (render (initial \<lparr>progress = Some (Num 150), onPlayChange = False\<rparr>)) = Num 150
   \<and> aria_valuenow (render (initial \<lparr>progress = Some (Num (- 5)), onPlayChange = False\<rparr>)) = Num (- 5)
   \<and> currentProgress (fst (setProgress (initial \<lparr>progress = Some (Num 150), onPlayChange = False\<rparr>)
         (Num 150))) = Num 100"
  using initial_progress_unclamped [of "Num 150" False "\<lparr>progress = None, onPlayChange = True\<rparr>"
          "\<lparr>isPlaying = True, currentProgress = Num 60\<rparr>" "''Space''"]
        initial_progress_unclamped [of "Num (- 5)" False "\<lparr>progress = None, onPlayChange = True\<rparr>"
          "\<lparr>isPlaying = True, currentProgress = Num 60\<rparr>" "''Space''"]
  by (simp add: setProgress_def initial_def)

section \<open>Properties of style resolution\<close>

subsection \<open>Lookups and fallbacks\<close>

lemma get_property_Missing:
  "k \<notin> set (map fst table) \<Longrightarrow> k \<notin> set Object_prototype \<Longrightarrow> get_property table k = Missing"
proof -
  assume "k \<notin> set (map fst table)" and p: "k \<notin> set Object_prototype"
  then have "map_of table k = None"
    by (simp add: map_of_eq_None_iff)
  with p show ?thesis
    by (simp add: get_property_def)
qed

lemma or_default_simps:
  "or_default None d = d" "or_default (Some x) d = x"
  by (simp_all add: or_default_def)

lemma get_property_not_Inherited:
  "k \<notin> set Object_prototype \<Longrightarrow> get_property table k \<noteq> Inherited"
  by (simp add: get_property_def split: option.splits)

lemma configKey_not_inherited: "configKey v t \<notin> set Object_prototype"
  by (simp add: configKey_def Object_prototype_def)

lemma currentOpacity_standard: "currentOpacity ''standard'' = Some opacityMap_standard"
  by (simp add: currentOpacity_def get_property_def opacityMap_def)

lemma currentOpacity_fallback:
  "t \<notin> set (map fst opacityMap) \<Longrightarrow> t \<notin> set Object_prototype \<Longrightarrow>
   currentOpacity t = currentOpacity ''standard''"
  by (simp add: currentOpacity_standard) (simp add: currentOpacity_def get_property_Missing)

lemma spread_variant_default:
  "spread_variant ''default'' = Inr [Some ''w-full'', Some ''sm:w-80'']"
  by (simp add: spread_variant_def get_property_def variantClasses_def)

lemma spread_variant_fallback:
  "v \<notin> set (map fst variantClasses) \<Longrightarrow> v \<notin> set Object_prototype \<Longrightarrow>
   spread_variant v = spread_variant ''default''"
  by (simp add: spread_variant_default) (simp add: spread_variant_def get_property_Missing)

lemma GlassCard_opacity_fallback:
  "t \<notin> set (map fst opacityMap) \<Longrightarrow> t \<notin> set Object_prototype \<Longrightarrow>
   GlassCard (p\<lparr>opacity := Some t\<rparr>) = GlassCard (p\<lparr>opacity := Some ''standard''\<rparr>)"
  by (simp add: GlassCard_def allClasses_def Let_def or_default_simps currentOpacity_fallback
        cong: sum.case_cong)

lemma GlassCard_variant_fallback:
  "v \<notin> set (map fst variantClasses) \<Longrightarrow> v \<notin> set Object_prototype \<Longrightarrow>
   GlassCard (p\<lparr>variant := Some v\<rparr>) = GlassCard (p\<lparr>variant := Some ''default''\<rparr>)"
  by (simp add: GlassCard_def allClasses_def Let_def or_default_simps spread_variant_fallback
        cong: sum.case_cong)

lemma allClasses_total:
  assumes "or_default (opacity p) ''standard'' \<notin> set Object_prototype"
    and "or_default (variant p) ''default'' \<notin> set Object_prototype"
  shows "\<exists>cs. allClasses p = Inr cs"
proof -
  obtain e where e: "currentOpacity (or_default (opacity p) ''standard'') = Some e"
    using get_property_not_Inherited [OF assms(1), of opacityMap]
    by (cases "get_property opacityMap (or_default (opacity p) ''standard'')")
       (simp_all add: currentOpacity_def)
  obtain vc where vc: "spread_variant (or_default (variant p) ''default'') = Inr vc"
    using get_property_not_Inherited [OF assms(2), of variantClasses]
    by (cases "get_property variantClasses (or_default (variant p) ''default'')")
       (simp_all add: spread_variant_def)
  show ?thesis
    by (simp add: allClasses_def Let_def e vc interactiveClasses_def)
qed

lemma sizeStyle_fallback:
  "s \<notin> set (map fst sizeConfig) \<Longrightarrow> s \<notin> set Object_prototype \<Longrightarrow>
   sizeStyle s = sizeStyle ''medium''"
  by (simp add: sizeStyle_def get_property_Missing)
     (simp add: get_property_def sizeConfig_def)

lemma config_variant:
  "v \<noteq> ''nav'' \<Longrightarrow> config v t = config ''content'' t"
  by (simp add: config_def configKey_def)

lemma config_nav_standard: "config ''nav'' ''standard'' = Some opacityConfig_navStandard"
  by (simp add: config_def configKey_def get_property_def opacityConfig_def toUpperCase_def)

lemma config_content_standard: "config ''content'' ''standard'' = Some opacityConfig_contentStandard"
  by (simp add: config_def configKey_def get_property_def opacityConfig_def toUpperCase_def)

lemma legacy_standard: "opacityConfig_standard = opacityConfig_navStandard"
  by (simp add: opacityConfig_standard_def opacityConfig_navStandard_def)

lemma config_fallback:
  "t \<notin> set (map fst opacityConfig) \<Longrightarrow> configKey v t \<notin> set (map fst opacityConfig) \<Longrightarrow>
   t \<notin> set Object_prototype \<Longrightarrow> config v t = Some opacityConfig_standard"
  by (simp add: config_def get_property_Missing configKey_not_inherited)

lemma frosted_opacity_fallback:
  assumes "t \<notin> set (map fst opacityConfig)" "configKey v t \<notin> set (map fst opacityConfig)"
    "t \<notin> set Object_prototype"
  shows "frosted_style t v s i = frosted_style ''standard'' ''nav'' s i"
proof -
  have "t \<noteq> ''opaque''" "t \<noteq> ''dark''"
    using assms(1) by (auto simp: opacityConfig_def)
  then show ?thesis
    by (simp add: frosted_style_def config_fallback [OF assms] config_nav_standard legacy_standard)
qed

lemma config_nav_tiers:
  "map (config ''nav'') tiers =
     [Some opacityConfig_navLight, Some opacityConfig_navStandard,
      Some opacityConfig_navDark, Some opacityConfig_opaque]"
  by (simp add: tiers_def config_def configKey_def get_property_def opacityConfig_def
        toUpperCase_def Object_prototype_def)

lemma config_content_tiers:
  "v \<noteq> ''nav'' \<Longrightarrow> map (config v) tiers =
     [Some opacityConfig_contentLight, Some opacityConfig_contentStandard,
      Some opacityConfig_contentDark, Some opacityConfig_opaque]"
  by (simp add: tiers_def config_def configKey_def get_property_def opacityConfig_def
        toUpperCase_def Object_prototype_def)

lemma entry_alphas:
  "map (\<lambda>e. rgba_alpha (config_bg (snd e))) opacityConfig =
     [8 / 100, 12 / 100, 18 / 100, 15 / 100, 25 / 100, 35 / 100, 15 / 100, 25 / 100,
      35 / 100, 45 / 100]"
  by code_simp

lemma entry_blurs:
  "map (\<lambda>e. leading_number (config_blur (snd e))) opacityConfig =
     [4, 6, 8, 10, 12, 14, 10, 12, 14, 16]"
  by code_simp

lemma entry_layers:
  "map (\<lambda>e. layer_counts (config_shadow (snd e))) opacityConfig =
     [(1, 4), (1, 4), (1, 4), (1, 4), (1, 4), (1, 4), (1, 4), (1, 4), (1, 4), (1, 4)]"
  by code_simp

lemma card_alphas: "map card_backgroundAlpha tiers = [Some 45, Some 65, Some 85, Some 95]"
  by code_simp

lemma card_blurs: "map card_blurRadiusPx tiers = [Some 16, Some 16, Some 16, Some 16]"
  by code_simp

lemma allClasses_children: "allClasses (p\<lparr>children := c\<rparr>) = allClasses p"
  by (simp add: allClasses_def Let_def cong: sum.case_cong)

lemma frosted_channels:
  "frosted_backgroundAlpha (frosted_style t v s i) =
     map_option (\<lambda>c. rgba_alpha (config_bg c)) (config v t)"
  "frosted_blurRadiusPx (frosted_style t v s i) =
     leading_number (template (map_option config_blur (config v t)) @ '')'')"
  "frosted_layer_counts (frosted_style t v s i) =
     map_option (\<lambda>c. layer_counts (config_shadow c)) (config v t)"
  by (simp_all add: frosted_backgroundAlpha_def frosted_blurRadiusPx_def
        frosted_layer_counts_def frosted_style_def Let_def option.map_comp comp_def)

lemma entry_blurs_style:
  "map (\<lambda>e. leading_number (template (Some (config_blur (snd e))) @ '')'')) opacityConfig =
     [4, 6, 8, 10, 12, 14, 10, 12, 14, 16]"
  by code_simp

lemmas entry_alpha = entry_alphas [unfolded opacityConfig_def, simplified]
lemmas entry_blur = entry_blurs_style [unfolded opacityConfig_def, simplified]
lemmas entry_layer = entry_layers [unfolded opacityConfig_def, simplified]
lemmas config_nav = config_nav_tiers [unfolded tiers_def, simplified]
lemmas config_content = config_content_tiers [unfolded tiers_def, simplified]

lemma frosted_nav_channels:
  "map (\<lambda>t. frosted_backgroundAlpha (frosted_style t ''nav'' s i)) tiers =
     map Some [15 / 100, 25 / 100, 35 / 100, 45 / 100]"
  "map (\<lambda>t. frosted_blurRadiusPx (frosted_style t ''nav'' s i)) tiers = [10, 12, 14, 16]"
  by (simp_all add: tiers_def frosted_channels config_nav entry_alpha entry_blur)

lemma frosted_content_channels:
  assumes "v \<noteq> ''nav''"
  shows "map (\<lambda>t. frosted_backgroundAlpha (frosted_style t v s i)) tiers =
     map Some [8 / 100, 12 / 100, 18 / 100, 45 / 100]"
    and "map (\<lambda>t. frosted_blurRadiusPx (frosted_style t v s i)) tiers = [4, 6, 8, 16]"
  by (simp_all add: tiers_def frosted_channels config_content [OF assms] entry_alpha entry_blur)

lemma class_value_append:
  "class_value pre xs = Some n \<Longrightarrow> class_value pre (xs @ ys) = Some n"
  by (auto simp: class_value_def split: list.splits)

lemma allClasses_base:
  assumes "allClasses p = Inr cs"
  shows "\<exists>rest. cs = baseClasses (currentOpacity (or_default (opacity p) ''standard'')) @ rest"
  using assms by (auto simp: allClasses_def Let_def split: sum.splits)

lemma card_channels_defined:
  assumes "t \<in> set tiers"
  shows "\<exists>a b. card_backgroundAlpha t = Some a \<and> card_blurRadiusPx t = Some b"
  using assms card_alphas card_blurs by (auto simp: tiers_def)

lemma card_channels_rendered:
  assumes "t \<in> set tiers" and "opacity p = Some t" and "allClasses p = Inr cs"
  shows "class_value ''bg-white/'' cs = card_backgroundAlpha t"
    and "class_value ''backdrop-blur-['' cs = card_blurRadiusPx t"
proof -
  obtain rest where cs: "cs = baseClasses (currentOpacity t) @ rest"
    using allClasses_base [OF assms(3)] assms(2) by (auto simp: or_default_simps)
  obtain a b where ab: "card_backgroundAlpha t = Some a" "card_blurRadiusPx t = Some b"
    using card_channels_defined [OF assms(1)] by blast
  show "class_value ''bg-white/'' cs = card_backgroundAlpha t"
    using ab(1) by (simp add: cs card_backgroundAlpha_def class_value_append)
  show "class_value ''backdrop-blur-['' cs = card_blurRadiusPx t"
    using ab(2) by (simp add: cs card_blurRadiusPx_def class_value_append)
qed

lemma get_property_Own: "get_property table k = Own c \<Longrightarrow> (k, c) \<in> set table"
  by (auto simp: get_property_def split: option.splits if_splits dest: map_of_SomeD)

lemma config_in_table:
  assumes "config v t = Some c"
  shows "c \<in> snd ` set opacityConfig"
proof -
  have std: "opacityConfig_standard \<in> snd ` set opacityConfig"
    by (simp add: opacityConfig_def)
  show ?thesis
  proof (cases "get_property opacityConfig (configKey v t)")
    case (Own c')
    with assms have "c' = c"
      by (simp add: config_def)
    with get_property_Own [OF Own] show ?thesis
      by force
  next
    case Inherited
    with assms show ?thesis
      by (simp add: config_def)
  next
    case Missing
    note m = this
    show ?thesis
    proof (cases "get_property opacityConfig t")
      case (Own c')
      with assms m have "c' = c"
        by (simp add: config_def)
      with get_property_Own [OF Own] show ?thesis
        by force
    next
      case Inherited
      with assms m show ?thesis
        by (simp add: config_def)
    next
      case Missing
      with assms m std show ?thesis
        by (simp add: config_def)
    qed
  qed
qed

lemma every_entry_layers:
  "list_all (\<lambda>e. layer_counts (config_shadow (snd e)) = (1, 4)) opacityConfig"
  by code_simp

lemma resolved_layers:
  assumes "frosted_layer_counts (frosted_style t v s i) = Some n"
  shows "n = (1, 4)"
proof -
  obtain c where c: "config v t = Some c" and n: "n = layer_counts (config_shadow c)"
    using assms by (auto simp: frosted_channels)
  from config_in_table [OF c] obtain e where "e \<in> set opacityConfig" "c = snd e"
    by blast
  with every_entry_layers n show ?thesis
    by (simp add: list_all_iff)
qed

subsection \<open>Fallback\<close>

text \<open>
  C5, as amended. A string that is neither a key of the table nor a name inherited from
  \<open>Object.prototype\<close> falls back as follows, and \<open>FrostedGlassPanel\<close> returns a style for
  every string opacity. In \<open>GlassCard\<close> such an opacity renders as
  \<open>standard\<close> and such a variant as \<open>default\<close>, and the render returns an element whenever
  opacity and variant are not inherited names. In \<open>FrostedGlassPanel\<close> such a size resolves
  as \<open>medium\<close>, every variant other than \<open>nav\<close> resolves as \<open>content\<close>, and an opacity for
  which neither the variant's key nor the opacity itself is in the table resolves, under
  every variant, to what \<open>standard\<close> resolves to under the variant \<open>nav\<close>.
\<close>

theorem fallback_resolution:
  "(t \<notin> set (map fst opacityMap) \<and> t \<notin> set Object_prototype \<longrightarrow>
      GlassCard (p\<lparr>opacity := Some t\<rparr>) = GlassCard (p\<lparr>opacity := Some ''standard''\<rparr>))
   \<and> (v \<notin> set (map fst variantClasses) \<and> v \<notin> set Object_prototype \<longrightarrow>
      GlassCard (p\<lparr>variant := Some v\<rparr>) = GlassCard (p\<lparr>variant := Some ''default''\<rparr>))
   \<and> (or_default (opacity p) ''standard'' \<notin> set Object_prototype
       \<and> or_default (variant p) ''default'' \<notin> set Object_prototype \<longrightarrow>
      (\<exists>el. GlassCard p = Inr el))
   \<and> (s \<notin> set (map fst sizeConfig) \<and> s \<notin> set Object_prototype \<longrightarrow>
      frosted_style t v s i = frosted_style t v ''medium'' i)
   \<and> (v \<noteq> ''nav'' \<longrightarrow> frosted_style t v s i = frosted_style t ''content'' s i)
   \<and> (t \<notin> set (map fst opacityConfig) \<and> configKey v t \<notin> set (map fst opacityConfig)
       \<and> t \<notin> set Object_prototype \<longrightarrow>
      frosted_style t v s i = frosted_style ''standard'' ''nav'' s i)
   \<and> FrostedGlassPanel (Some (Str t)) vo so io =
       Inr (frosted_style t (or_default vo ''content'') (or_default so ''medium'')
              (or_default io True))"
proof (intro conjI impI)
  assume "t \<notin> set (map fst opacityMap) \<and> t \<notin> set Object_prototype"
  then show "GlassCard (p\<lparr>opacity := Some t\<rparr>) = GlassCard (p\<lparr>opacity := Some ''standard''\<rparr>)"
    by (simp add: GlassCard_opacity_fallback)
next
  assume "v \<notin> set (map fst variantClasses) \<and> v \<notin> set Object_prototype"
  then show "GlassCard (p\<lparr>variant := Some v\<rparr>) = GlassCard (p\<lparr>variant := Some ''default''\<rparr>)"
    by (simp add: GlassCard_variant_fallback)
next
  assume "or_default (opacity p) ''standard'' \<notin> set Object_prototype
       \<and> or_default (variant p) ''default'' \<notin> set Object_prototype"
  then obtain cs where "allClasses p = Inr cs"
    using allClasses_total [of p] by blast
  then show "\<exists>el. GlassCard p = Inr el"
    by (simp add: GlassCard_def)
next
  assume "s \<notin> set (map fst sizeConfig) \<and> s \<notin> set Object_prototype"
  then show "frosted_style t v s i = frosted_style t v ''medium'' i"
    by (simp add: frosted_style_def sizeStyle_fallback)
next
  assume nv: "v \<noteq> ''nav''"
  show "frosted_style t v s i = frosted_style t ''content'' s i"
    by (simp add: frosted_style_def config_variant [OF nv])
next
  assume "t \<notin> set (map fst opacityConfig) \<and> configKey v t \<notin> set (map fst opacityConfig)
       \<and> t \<notin> set Object_prototype"
  then show "frosted_style t v s i = frosted_style ''standard'' ''nav'' s i"
    by (simp add: frosted_opacity_fallback)
next
  show "FrostedGlassPanel (Some (Str t)) vo so io =
       Inr (frosted_style t (or_default vo ''content'') (or_default so ''medium'')
              (or_default io True))"
    by (simp add: FrostedGlassPanel_def or_default_simps)
qed

theorem fallback_resolution_witness:
  "GlassCard (\<lparr>children = Some ''x'', className = None, variant = None, opacity = None,
        interactive = None, role = None, ariaLabel = None, ariaDescribedBy = None\<rparr>
      \<lparr>opacity := Some ''bogus-tier''\<rparr>) =
   GlassCard (\<lparr>children = Some ''x'', className = None, variant = None, opacity = None,
        interactive = None, role = None, ariaLabel = None, ariaDescribedBy = None\<rparr>
      \<lparr>opacity := Some ''standard''\<rparr>)
   \<and> GlassCard (\<lparr>children = Some ''x'', className = None, variant = None, opacity = None,
        interactive = None, role = None, ariaLabel = None, ariaDescribedBy = None\<rparr>
      \<lparr>variant := Some ''bogus''\<rparr>) =
     GlassCard (\<lparr>children = Some ''x'', className = None, variant = None, opacity = None,
        interactive = None, role = None, ariaLabel = None, ariaDescribedBy = None\<rparr>
      \<lparr>variant := Some ''default''\<rparr>)
   \<and> (\<exists>el. GlassCard \<lparr>children = Some ''x'', className = None, variant = None, opacity = None,
        interactive = None, role = None, ariaLabel = None, ariaDescribedBy = None\<rparr> = Inr el)
   \<and> frosted_style ''bogus-tier'' ''bogus'' ''huge'' True =
     frosted_style ''bogus-tier'' ''bogus'' ''medium'' True
   \<and> frosted_style ''bogus-tier'' ''bogus'' ''huge'' True =
     frosted_style ''bogus-tier'' ''content'' ''huge'' True
   \<and> frosted_style ''bogus-tier'' ''bogus'' ''huge'' True =
     frosted_style ''standard'' ''nav'' ''huge'' True
   \<and> FrostedGlassPanel (Some (Str ''bogus-tier'')) (Some ''bogus'') (Some ''huge'') None =
     Inr (frosted_style ''bogus-tier'' ''bogus'' ''huge'' True)"
proof -
  have tier: "''bogus-tier'' \<notin> set (map fst opacityMap) \<and> ''bogus-tier'' \<notin> set Object_prototype"
    by (simp add: opacityMap_def Object_prototype_def)
  have var: "''bogus'' \<notin> set (map fst variantClasses) \<and> ''bogus'' \<notin> set Object_prototype"
    by (simp add: variantClasses_def Object_prototype_def)
  have dflt: "or_default (opacity \<lparr>children = Some ''x'', className = None, variant = None, opacity = None,
        interactive = None, role = None, ariaLabel = None, ariaDescribedBy = None\<rparr>) ''standard'' \<notin> set Object_prototype
      \<and> or_default (variant \<lparr>children = Some ''x'', className = None, variant = None, opacity = None,
        interactive = None, role = None, ariaLabel = None, ariaDescribedBy = None\<rparr>) ''default'' \<notin> set Object_prototype"
    by (simp add: or_default_def Object_prototype_def)
  have sz: "''huge'' \<notin> set (map fst sizeConfig) \<and> ''huge'' \<notin> set Object_prototype"
    by (simp add: sizeConfig_def Object_prototype_def)
  have nv: "''bogus'' \<noteq> ''nav''"
    by simp
  have cfg: "''bogus-tier'' \<notin> set (map fst opacityConfig)
      \<and> configKey ''bogus'' ''bogus-tier'' \<notin> set (map fst opacityConfig)
      \<and> ''bogus-tier'' \<notin> set Object_prototype"
    by (simp add: opacityConfig_def configKey_def toUpperCase_def Object_prototype_def)
  note r = fallback_resolution [of "''bogus-tier''"
      "\<lparr>children = Some ''x'', className = None, variant = None, opacity = None,
        interactive = None, role = None, ariaLabel = None, ariaDescribedBy = None\<rparr>"
      "''bogus''" "''huge''" True "Some ''bogus''" "Some ''huge''" None]
  note panel = r [THEN conjunct2, THEN conjunct2, THEN conjunct2, THEN conjunct2,
      THEN conjunct2, THEN conjunct2, unfolded or_default_simps]
  from r tier var dflt sz nv cfg panel show ?thesis
    by blast
qed

text \<open>
  C5 as stated fails in \<open>FrostedGlassPanel\<close> with a variant other than \<open>nav\<close>: the
  unrecognized opacity takes the table's entry \<open>standard\<close> (alpha 0.25), the opacity
  \<open>standard\<close> takes the entry \<open>contentStandard\<close> (alpha 0.12).
\<close>

theorem fallback_counterexample:
  "map_sum id style_background
     (FrostedGlassPanel (Some (Str ''bogus-tier'')) (Some ''default'') (Some ''medium'') None) =
     Inr (Some ''rgba(255, 255, 255, 0.25)'')
   \<and> map_sum id style_background
     (FrostedGlassPanel (Some (Str ''standard'')) (Some ''default'') (Some ''medium'') None) =
     Inr (Some ''rgba(255, 255, 255, 0.12)'')
   \<and> FrostedGlassPanel (Some (Str ''bogus-tier'')) (Some ''default'') (Some ''medium'') None \<noteq>
     FrostedGlassPanel (Some (Str ''standard'')) (Some ''default'') (Some ''medium'') None"
proof -
  have a: "map_sum id style_background
     (FrostedGlassPanel (Some (Str ''bogus-tier'')) (Some ''default'') (Some ''medium'') None) =
     Inr (Some ''rgba(255, 255, 255, 0.25)'')"
    by code_simp
  have b: "map_sum id style_background
     (FrostedGlassPanel (Some (Str ''standard'')) (Some ''default'') (Some ''medium'') None) =
     Inr (Some ''rgba(255, 255, 255, 0.12)'')"
    by code_simp
  have "FrostedGlassPanel (Some (Str ''bogus-tier'')) (Some ''default'') (Some ''medium'') None \<noteq>
     FrostedGlassPanel (Some (Str ''standard'')) (Some ''default'') (Some ''medium'') None"
  proof
    assume "FrostedGlassPanel (Some (Str ''bogus-tier'')) (Some ''default'') (Some ''medium'') None =
     FrostedGlassPanel (Some (Str ''standard'')) (Some ''default'') (Some ''medium'') None"
    then have "Inr (Some ''rgba(255, 255, 255, 0.25)'') =
        (Inr (Some ''rgba(255, 255, 255, 0.12)'') :: error + string option)"
      using a b by simp
    then show False
      by simp
  qed
  with a b show ?thesis
    by (intro conjI)
qed

text \<open>
  The inherited names are outside the fallback: for them the lookup is truthy, so the
  default is not taken, and \<open>GlassCard\<close> reads a field of \<open>undefined\<close> or spreads a value
  that is not iterable.
\<close>

lemma inherited_opacity_throws:
  "GlassCard \<lparr>children = Some ''x'', className = None, variant = None,
     opacity = Some ''constructor'', interactive = None, role = None, ariaLabel = None,
     ariaDescribedBy = None\<rparr> = Inl TypeError"
  by code_simp

lemma inherited_variant_throws:
  "GlassCard \<lparr>children = Some ''x'', className = None, variant = Some ''toString'',
     opacity = None, interactive = None, role = None, ariaLabel = None,
     ariaDescribedBy = None\<rparr> = Inl TypeError"
  by code_simp

text \<open>
  A value of \<open>opacity\<close> that is not a string is outside the fallback of
  \<open>FrostedGlassPanel\<close> too: \<open>opacity.charAt\<close> throws before any table is read.
\<close>

lemma nonstring_opacity_throws:
  "FrostedGlassPanel (Some NotString) vo so io = Inl TypeError"
  by (simp add: FrostedGlassPanel_def or_default_simps)

subsection \<open>Tiers\<close>

text \<open>
  C6. Along the tiers light, standard, dark, opaque the background alpha and the blur
  radius never decrease: in \<open>GlassCard\<close>, where they are the classes of \<open>baseClasses\<close> and
  are the ones of every class list the card renders for a tier, whatever its variant; and
  in \<open>FrostedGlassPanel\<close>, for every variant, size and interactivity.
\<close>

theorem tier_monotonicity:
  "(\<exists>as bs. map card_backgroundAlpha tiers = map Some as \<and> sorted as
       \<and> map card_blurRadiusPx tiers = map Some bs \<and> sorted bs)
   \<and> (t \<in> set tiers \<and> opacity p = Some t \<and> allClasses p = Inr cs \<longrightarrow>
       class_value ''bg-white/'' cs = card_backgroundAlpha t
       \<and> class_value ''backdrop-blur-['' cs = card_blurRadiusPx t)
   \<and> (\<exists>as bs. map (\<lambda>tier. frosted_backgroundAlpha (frosted_style tier v s i)) tiers = map Some as
       \<and> sorted as
       \<and> map (\<lambda>tier. frosted_blurRadiusPx (frosted_style tier v s i)) tiers = bs \<and> sorted bs)"
proof (intro conjI)
  show "\<exists>as bs. map card_backgroundAlpha tiers = map Some as \<and> sorted as
       \<and> map card_blurRadiusPx tiers = map Some bs \<and> sorted bs"
  proof (intro exI conjI)
    show "map card_backgroundAlpha tiers = map Some [45, 65, 85, 95]"
      by (simp add: card_alphas)
    show "sorted [45, 65, 85, 95 :: nat]"
      by simp
    show "map card_blurRadiusPx tiers = map Some [16, 16, 16, 16]"
      by (simp add: card_blurs)
    show "sorted [16, 16, 16, 16 :: nat]"
      by simp
  qed
next
  show "t \<in> set tiers \<and> opacity p = Some t \<and> allClasses p = Inr cs \<longrightarrow>
       class_value ''bg-white/'' cs = card_backgroundAlpha t
       \<and> class_value ''backdrop-blur-['' cs = card_blurRadiusPx t"
    using card_channels_rendered [of t p cs] by blast
next
  show "\<exists>as bs. map (\<lambda>tier. frosted_backgroundAlpha (frosted_style tier v s i)) tiers = map Some as
       \<and> sorted as
       \<and> map (\<lambda>tier. frosted_blurRadiusPx (frosted_style tier v s i)) tiers = bs \<and> sorted bs"
  proof (cases "v = ''nav''")
    case True
    show ?thesis
    proof (intro exI conjI)
      show "map (\<lambda>tier. frosted_backgroundAlpha (frosted_style tier v s i)) tiers =
          map Some [15 / 100, 25 / 100, 35 / 100, 45 / 100]"
        unfolding True by (rule frosted_nav_channels)
      show "sorted [15 / 100, 25 / 100, 35 / 100, 45 / 100 :: rat]"
        by simp
      show "map (\<lambda>tier. frosted_blurRadiusPx (frosted_style tier v s i)) tiers = [10, 12, 14, 16]"
        unfolding True by (rule frosted_nav_channels)
      show "sorted [10, 12, 14, 16 :: nat]"
        by simp
    qed
  next
    case False
    show ?thesis
    proof (intro exI conjI)
      show "map (\<lambda>tier. frosted_backgroundAlpha (frosted_style tier v s i)) tiers =
          map Some [8 / 100, 12 / 100, 18 / 100, 45 / 100]"
        by (rule frosted_content_channels [OF False])
      show "sorted [8 / 100, 12 / 100, 18 / 100, 45 / 100 :: rat]"
        by simp
      show "map (\<lambda>tier. frosted_blurRadiusPx (frosted_style tier v s i)) tiers = [4, 6, 8, 16]"
        by (rule frosted_content_channels [OF False])
      show "sorted [4, 6, 8, 16 :: nat]"
        by simp
    qed
  qed
qed

theorem tier_monotonicity_witness:
  "\<exists>cs. allClasses \<lparr>children = Some ''x'', className = None, variant = Some ''small'',
        opacity = Some ''dark'', interactive = None, role = None, ariaLabel = None,
        ariaDescribedBy = None\<rparr> = Inr cs
     \<and> class_value ''bg-white/'' cs = Some 85
     \<and> class_value ''backdrop-blur-['' cs = Some 16"
proof -
  have "or_default (opacity \<lparr>children = Some ''x'', className = None, variant = Some ''small'',
        opacity = Some ''dark'', interactive = None, role = None, ariaLabel = None,
        ariaDescribedBy = None\<rparr>) ''standard'' \<notin> set Object_prototype"
    "or_default (variant \<lparr>children = Some ''x'', className = None, variant = Some ''small'',
        opacity = Some ''dark'', interactive = None, role = None, ariaLabel = None,
        ariaDescribedBy = None\<rparr>) ''default'' \<notin> set Object_prototype"
    by (simp_all add: or_default_simps Object_prototype_def)
  then obtain cs where cs: "allClasses \<lparr>children = Some ''x'', className = None, variant = Some ''small'',
        opacity = Some ''dark'', interactive = None, role = None, ariaLabel = None,
        ariaDescribedBy = None\<rparr> = Inr cs"
    using allClasses_total by blast
  have "''dark'' \<in> set tiers"
    by (simp add: tiers_def)
  with cs tier_monotonicity [of "''dark''" "\<lparr>children = Some ''x'', className = None, variant = Some ''small'',
        opacity = Some ''dark'', interactive = None, role = None, ariaLabel = None,
        ariaDescribedBy = None\<rparr>" cs]
  have "class_value ''bg-white/'' cs = card_backgroundAlpha ''dark''"
    "class_value ''backdrop-blur-['' cs = card_blurRadiusPx ''dark''"
    by simp_all
  moreover have "card_backgroundAlpha ''dark'' = Some 85" "card_blurRadiusPx ''dark'' = Some 16"
    using card_alphas card_blurs by (simp_all add: tiers_def)
  ultimately show ?thesis
    using cs by simp
qed

text \<open>
  C8, as amended. In \<open>FrostedGlassPanel\<close> the shadow has the same shape at every tier, for
  every variant and size: one outer layer and four inset layers. The same holds for
  every opacity whose configuration is an entry of the table.
\<close>

theorem shadow_layers_uniform:
  "map (\<lambda>tier. frosted_layer_counts (frosted_style tier v s i)) tiers =
     [Some (1, 4), Some (1, 4), Some (1, 4), Some (1, 4)]
   \<and> (frosted_layer_counts (frosted_style t v s i) = Some n \<longrightarrow> n = (1, 4))"
proof (intro conjI impI)
  show "map (\<lambda>tier. frosted_layer_counts (frosted_style tier v s i)) tiers =
     [Some (1, 4), Some (1, 4), Some (1, 4), Some (1, 4)]"
  proof (cases "v = ''nav''")
    case True
    then show ?thesis
      by (simp add: tiers_def frosted_channels config_nav entry_layer)
  next
    case False
    then show ?thesis
      by (simp add: tiers_def frosted_channels config_content [OF False] entry_layer)
  qed
next
  assume "frosted_layer_counts (frosted_style t v s i) = Some n"
  then show "n = (1, 4)"
    by (rule resolved_layers)
qed

theorem shadow_layers_uniform_witness:
  "frosted_layer_counts (frosted_style ''bogus-tier'' ''content'' ''small'' False) = Some (1, 4)"
proof -
  have e: "frosted_layer_counts (frosted_style ''bogus-tier'' ''content'' ''small'' False) =
      Some (layer_counts (config_shadow opacityConfig_standard))"
    by code_simp
  with shadow_layers_uniform [of "''content''" "''small''" False "''bogus-tier''"
      "layer_counts (config_shadow opacityConfig_standard)"]
  show ?thesis
    by simp
qed

text \<open>
  C8 as stated fails: the lowest tier already has four inset layers besides its outer
  one, the highest tier has four inset layers and not at most two, and the number of
  layers does not grow from the lowest tier to the highest.
\<close>

theorem shadow_layers_counterexample:
  "frosted_layer_counts (frosted_style ''light'' ''content'' ''medium'' True) = Some (1, 4)
   \<and> frosted_layer_counts (frosted_style ''opaque'' ''content'' ''medium'' True) = Some (1, 4)
   \<and> frosted_layer_counts (frosted_style ''light'' ''nav'' ''medium'' True) = Some (1, 4)
   \<and> frosted_layer_counts (frosted_style ''opaque'' ''nav'' ''medium'' True) = Some (1, 4)"
  by (simp add: frosted_channels config_nav config_content entry_layer)

subsection \<open>Missing child content\<close>

text \<open>
  C9, as amended. \<open>GlassCard\<close> without child content does not fail: its classes are
  those of the card with content, it returns the element the card with content returns
  with an empty child slot, and it fails only where the card with content fails. The
  omission shows in the \<open>propTypes\<close> declaration alone, which the render does not read.
\<close>

theorem missing_children_renders:
  "allClasses (p\<lparr>children := None\<rparr>) = allClasses p
   \<and> (GlassCard p = Inr el \<longrightarrow> GlassCard (p\<lparr>children := None\<rparr>) = Inr (el\<lparr>el_children := None\<rparr>))
   \<and> (GlassCard p = Inl e \<longrightarrow> GlassCard (p\<lparr>children := None\<rparr>) = Inl e)
   \<and> propTypes_missing (p\<lparr>children := None\<rparr>) = [''children'']
   \<and> (or_default (opacity p) ''standard'' \<notin> set Object_prototype
       \<and> or_default (variant p) ''default'' \<notin> set Object_prototype \<longrightarrow>
      (\<exists>el. GlassCard (p\<lparr>children := None\<rparr>) = Inr el \<and> el_children el = None))"
proof (intro conjI impI)
  show "allClasses (p\<lparr>children := None\<rparr>) = allClasses p"
    by (rule allClasses_children)
next
  assume "GlassCard p = Inr el"
  then show "GlassCard (p\<lparr>children := None\<rparr>) = Inr (el\<lparr>el_children := None\<rparr>)"
    by (auto simp: GlassCard_def allClasses_children split: sum.splits)
next
  assume "GlassCard p = Inl e"
  then show "GlassCard (p\<lparr>children := None\<rparr>) = Inl e"
    by (auto simp: GlassCard_def allClasses_children split: sum.splits)
next
  show "propTypes_missing (p\<lparr>children := None\<rparr>) = [''children'']"
    by (simp add: propTypes_missing_def)
next
  assume "or_default (opacity p) ''standard'' \<notin> set Object_prototype
       \<and> or_default (variant p) ''default'' \<notin> set Object_prototype"
  then obtain cs where "allClasses p = Inr cs"
    using allClasses_total [of p] by blast
  then show "\<exists>el. GlassCard (p\<lparr>children := None\<rparr>) = Inr el \<and> el_children el = None"
    by (simp add: GlassCard_def allClasses_children)
qed

theorem missing_children_renders_witness:
  "GlassCard (\<lparr>children = Some ''x'', className = None, variant = Some ''small'',
        opacity = Some ''dark'', interactive = Some False, role = None, ariaLabel = None,
        ariaDescribedBy = None\<rparr>\<lparr>children := None\<rparr>) =
   Inr \<lparr>el_className =
          ''bg-white/85 backdrop-blur-[16px] -webkit-backdrop-filter-blur-[16px] border '' @
          ''border-white/95 border-b-white/70 border-r-white/70 '' @
          ''shadow-[0_8px_32px_0_rgba(31,38,135,0.1)] rounded-3xl p-6 transition-all '' @
          ''duration-300 ease-in-out w-36 h-36 '',
        el_role = ''article'', el_ariaLabel = None, el_ariaDescribedBy = None,
        el_children = None\<rparr>
   \<and> GlassCard (\<lparr>children = Some ''x'', className = None, variant = None,
        opacity = Some ''constructor'', interactive = None, role = None, ariaLabel = None,
        ariaDescribedBy = None\<rparr>\<lparr>children := None\<rparr>) = Inl TypeError
   \<and> (\<exists>el. GlassCard (\<lparr>children = Some ''x'', className = None, variant = Some ''small'',
        opacity = Some ''dark'', interactive = Some False, role = None, ariaLabel = None,
        ariaDescribedBy = None\<rparr>\<lparr>children := None\<rparr>) = Inr el \<and> el_children el = None)"
proof -
  have r: "GlassCard \<lparr>children = Some ''x'', className = None, variant = Some ''small'',
        opacity = Some ''dark'', interactive = Some False, role = None, ariaLabel = None,
        ariaDescribedBy = None\<rparr> =
   Inr \<lparr>el_className =
          ''bg-white/85 backdrop-blur-[16px] -webkit-backdrop-filter-blur-[16px] border '' @
          ''border-white/95 border-b-white/70 border-r-white/70 '' @
          ''shadow-[0_8px_32px_0_rgba(31,38,135,0.1)] rounded-3xl p-6 transition-all '' @
          ''duration-300 ease-in-out w-36 h-36 '',
        el_role = ''article'', el_ariaLabel = None, el_ariaDescribedBy = None,
        el_children = Some ''x''\<rparr>"
    by code_simp
  have l: "GlassCard \<lparr>children = Some ''x'', className = None, variant = None,
        opacity = Some ''constructor'', interactive = None, role = None, ariaLabel = None,
        ariaDescribedBy = None\<rparr> = Inl TypeError"
    by code_simp
  have n: "or_default (opacity \<lparr>children = Some ''x'', className = None, variant = Some ''small'',
        opacity = Some ''dark'', interactive = Some False, role = None, ariaLabel = None,
        ariaDescribedBy = None\<rparr>) ''standard'' \<notin> set Object_prototype
     \<and> or_default (variant \<lparr>children = Some ''x'', className = None, variant = Some ''small'',
        opacity = Some ''dark'', interactive = Some False, role = None, ariaLabel = None,
        ariaDescribedBy = None\<rparr>) ''default'' \<notin> set Object_prototype"
    by (simp add: or_default_def Object_prototype_def)
  note a = missing_children_renders [of "\<lparr>children = Some ''x'', className = None, variant = Some ''small'',
        opacity = Some ''dark'', interactive = Some False, role = None, ariaLabel = None,
        ariaDescribedBy = None\<rparr>"]
  note b = missing_children_renders [of "\<lparr>children = Some ''x'', className = None, variant = None,
        opacity = Some ''constructor'', interactive = None, role = None, ariaLabel = None,
        ariaDescribedBy = None\<rparr>" _ TypeError]
  from a r have 1: "GlassCard (\<lparr>children = Some ''x'', className = None, variant = Some ''small'',
        opacity = Some ''dark'', interactive = Some False, role = None, ariaLabel = None,
        ariaDescribedBy = None\<rparr>\<lparr>children := None\<rparr>) =
   Inr \<lparr>el_className =
          ''bg-white/85 backdrop-blur-[16px] -webkit-backdrop-filter-blur-[16px] border '' @
          ''border-white/95 border-b-white/70 border-r-white/70 '' @
          ''shadow-[0_8px_32px_0_rgba(31,38,135,0.1)] rounded-3xl p-6 transition-all '' @
          ''duration-300 ease-in-out w-36 h-36 '',
        el_role = ''article'', el_ariaLabel = None, el_ariaDescribedBy = None,
        el_children = None\<rparr>"
    by simp
  from b l have 2: "GlassCard (\<lparr>children = Some ''x'', className = None, variant = None,
        opacity = Some ''constructor'', interactive = None, role = None, ariaLabel = None,
        ariaDescribedBy = None\<rparr>\<lparr>children := None\<rparr>) = Inl TypeError"
    by blast
  from a n have 3: "\<exists>el. GlassCard (\<lparr>children = Some ''x'', className = None, variant = Some ''small'',
        opacity = Some ''dark'', interactive = Some False, role = None, ariaLabel = None,
        ariaDescribedBy = None\<rparr>\<lparr>children := None\<rparr>) = Inr el \<and> el_children el = None"
    by blast
  from 1 2 3 show ?thesis
    by (intro conjI)
qed

text \<open>
  C9 as stated fails: the card with every prop omitted, the child content too, is
  rendered.
\<close>

theorem missing_children_counterexample:
  "GlassCard \<lparr>children = None, className = None, variant = None, opacity = None,
     interactive = None, role = None, ariaLabel = None, ariaDescribedBy = None\<rparr> =
   Inr \<lparr>el_className =
          ''bg-white/65 backdrop-blur-[16px] -webkit-backdrop-filter-blur-[16px] border '' @
          ''border-white/80 border-b-white/40 border-r-white/40 '' @
          ''shadow-[0_8px_32px_0_rgba(31,38,135,0.07)] rounded-3xl p-6 transition-all '' @
          ''duration-300 ease-in-out w-full sm:w-80 '' @
          ''hover:shadow-[0_12px_40px_0_rgba(31,38,135,0.12)] hover:-translate-y-1 '' @
          ''hover:bg-white/75 cursor-pointer '',
        el_role = ''article'', el_ariaLabel = None, el_ariaDescribedBy = None,
        el_children = (None :: string option)\<rparr>"
  by code_simp

end
